theory Spec2Isabelle
  imports Complex_Main
begin

section \<open>Superdense coding: the circuit, the encoder and the decoder\<close>

text \<open>
  The notebook \<^verbatim>\<open>superdense_coding.ipynb\<close> builds a two-qubit circuit, lets Alice encode
  a two-character message on her qubit (\<^verbatim>\<open>encode_message\<close>) and lets Bob decode it
  (\<^verbatim>\<open>decode_message\<close>). The circuit object, its gate methods and the simulator come from
  a library that is not part of the repository; they are modelled from the specification
  and marked so. A \<open>char\<close> stands for one character of a Python string.
\<close>

subsection \<open>Data model\<close>

datatype gate_op =
    H nat
  | X nat
  | Z nat
  | CNOT nat nat
  | Measure "nat list" "nat list"

record circuit =
  qubit_count :: nat
  clbit_count :: nat
  ops :: "gate_op list"

datatype error =
    Exception string
  | IndexOutOfRange
  | CircuitError
  | InvalidReference
  | NoCounts
  | InvalidShots

text \<open>
  The encoder raises a plain \<^verbatim>\<open>Exception\<close> with a fixed text; the specification calls this
  condition \<open>InvalidMessageLength\<close>.
\<close>

abbreviation InvalidMessageLength :: error where
  "InvalidMessageLength \<equiv> Exception ''Error - message of incorrect length has been passed!''"

subsection \<open>Objects, references and statements\<close>

text \<open>
  Python passes the circuit by reference and the gate methods mutate it. The store is the
  list of the circuit objects allocated so far, a reference is a position in it, and a
  statement maps a store to the new store and either the exception raised or the value
  returned. \<open>Inr ()\<close> is Python's \<^verbatim>\<open>None\<close>.
\<close>

type_synonym ref = nat
type_synonym heap = "circuit list"
type_synonym 'a py = "heap \<Rightarrow> heap \<times> (error + 'a)"

definition return :: "'a \<Rightarrow> 'a py" where
  "return v h = (h, Inr v)"

definition raise :: "error \<Rightarrow> 'a py" where
  "raise e h = (h, Inl e)"

definition bind :: "'a py \<Rightarrow> ('a \<Rightarrow> 'b py) \<Rightarrow> 'b py" where
  "bind m k h = (case m h of (h', Inl e) \<Rightarrow> (h', Inl e) | (h', Inr v) \<Rightarrow> k v h')"

definition seq :: "'a py \<Rightarrow> 'b py \<Rightarrow> 'b py" where
  "seq m k = bind m (\<lambda>_. k)"

subsection \<open>Circuit builder\<close>

fun op_qubits :: "gate_op \<Rightarrow> nat list" where
  "op_qubits (H q) = [q]"
| "op_qubits (X q) = [q]"
| "op_qubits (Z q) = [q]"
| "op_qubits (CNOT c t) = [c, t]"
| "op_qubits (Measure qs cs) = qs"

fun op_clbits :: "gate_op \<Rightarrow> nat list" where
  "op_clbits (Measure qs cs) = cs"
| "op_clbits _ = []"

fun is_measurement :: "gate_op \<Rightarrow> bool" where
  "is_measurement (Measure qs cs) = True"
| "is_measurement _ = False"

text \<open>
  Modelled from the spec: a measurement binds each listed qubit to the classical slot at
  the same position (section 4.4). The library also accepts a single qubit with several
  slots and binds the qubit to each of them; any other pair of lists of different lengths
  is refused.
\<close>

definition measure_pairs :: "nat list \<Rightarrow> nat list \<Rightarrow> (nat \<times> nat) list option" where
  "measure_pairs qs cs =
     (if length qs = length cs then Some (zip qs cs)
      else if length qs = 1 \<and> cs \<noteq> [] then Some (map (\<lambda>c. (hd qs, c)) cs)
      else None)"

text \<open>
  Modelled from the spec: the library's check when an operation is appended (section 4.2:
  an operation that references a qubit or a classical index outside the declared range
  fails at append time; the specification names the condition \<open>IndexOutOfRange\<close>). The
  library also refuses a gate that names one qubit twice and a measurement whose lists it
  cannot pair.
\<close>

definition check_op :: "circuit \<Rightarrow> gate_op \<Rightarrow> error option" where
  "check_op c g =
     (if (\<exists>q \<in> set (op_qubits g). qubit_count c \<le> q) then Some IndexOutOfRange
      else if (\<exists>b \<in> set (op_clbits g). clbit_count c \<le> b) then Some IndexOutOfRange
      else case g of
        Measure qs cs \<Rightarrow> if measure_pairs qs cs = None then Some CircuitError else None
      | _ \<Rightarrow> if \<not> distinct (op_qubits g) then Some CircuitError else None)"

text \<open>
  Modelled from the spec: appending to the circuit object behind a reference (section 3:
  a circuit is an ordered sequence of gate operations, append-only during construction).
  A refused operation leaves the circuit as it was. A Python reference always names a live
  object; the first branch only keeps the model total.
\<close>

definition append_op :: "gate_op \<Rightarrow> ref \<Rightarrow> unit py" where
  "append_op g qc h =
     (if length h \<le> qc then (h, Inl InvalidReference)
      else case check_op (h ! qc) g of
             Some e \<Rightarrow> (h, Inl e)
           | None \<Rightarrow> (h[qc := (h ! qc)\<lparr>ops := ops (h ! qc) @ [g]\<rparr>], Inr ()))"

text \<open>
  Modelled from the spec: the constructor \<^verbatim>\<open>QuantumCircuit(n, m)\<close> makes a new circuit
  object with the declared qubit count and classical-bit count and no operation, and
  returns its reference.
\<close>

definition QuantumCircuit :: "nat \<Rightarrow> nat \<Rightarrow> ref py" where
  "QuantumCircuit n m h =
     (h @ [\<lparr>qubit_count = n, clbit_count = m, ops = []\<rparr>], Inr (length h))"

text \<open>
  Modelled from the spec: the methods \<^verbatim>\<open>qc.h\<close>, \<^verbatim>\<open>qc.x\<close>, \<^verbatim>\<open>qc.z\<close>, \<^verbatim>\<open>qc.cx\<close> and
  \<^verbatim>\<open>qc.measure\<close> append the operation of that name (section 3: H(qubit), X(qubit),
  Z(qubit), CNOT(control, target), Measure(qubits, classical slots)).
\<close>

definition qc_h :: "nat \<Rightarrow> ref \<Rightarrow> unit py" where
  "qc_h q qc = append_op (H q) qc"

definition qc_x :: "nat \<Rightarrow> ref \<Rightarrow> unit py" where
  "qc_x q qc = append_op (X q) qc"

definition qc_z :: "nat \<Rightarrow> ref \<Rightarrow> unit py" where
  "qc_z q qc = append_op (Z q) qc"

definition qc_cx :: "nat \<Rightarrow> nat \<Rightarrow> ref \<Rightarrow> unit py" where
  "qc_cx c t qc = append_op (CNOT c t) qc"

definition qc_measure :: "nat list \<Rightarrow> nat list \<Rightarrow> ref \<Rightarrow> unit py" where
  "qc_measure qs cs qc = append_op (Measure qs cs) qc"

subsection \<open>The encoder\<close>

text \<open>
  \<^verbatim>\<open>
  def encode_message(qc, message):
      if len(message) != 2:
          raise Exception("Error - message of incorrect length has been passed!")
      if message[0] == '1':
          qc.z(1)
      if message[1] == '1':
          qc.x(1)
  \<close>
  Both index reads are in range once the length check has passed. The function ends
  without a \<^verbatim>\<open>return\<close>, so it returns \<^verbatim>\<open>None\<close>.
\<close>

definition encode_message :: "ref \<Rightarrow> string \<Rightarrow> unit py" where
  "encode_message qc message =
     (if length message \<noteq> 2
      then raise (Exception ''Error - message of incorrect length has been passed!'')
      else seq (if message ! 0 = CHR ''1'' then qc_z 1 qc else return ())
               (if message ! 1 = CHR ''1'' then qc_x 1 qc else return ()))"

text \<open>
  The comment above the encoder reads "let Alice manipulate her qubit", and the encoder
  acts on qubit 1: qubit 1 is Alice's, qubit 0 is Bob's.
\<close>

definition alice_qubit :: nat where
  "alice_qubit = 1"

definition bob_qubit :: nat where
  "bob_qubit = 0"

subsection \<open>Amplitude vector and gate library\<close>

text \<open>
  Modelled from the spec: the amplitude vector and the gates (sections 3 and 4.1). The
  library that simulates the circuit is not part of the repository. The vector holds one
  complex amplitude per basis state; bit \<open>q\<close> of a basis-state index is the value of
  qubit \<open>q\<close>. The specification prescribes double precision; amplitudes here are exact
  complex numbers, so whatever depends on rounding is outside this model.
\<close>

type_synonym statevector = "complex list"

definition initial_state :: "nat \<Rightarrow> statevector" where
  "initial_state n = 1 # replicate (2 ^ n - 1) 0"

text \<open>The basis state that differs from \<open>k\<close> only in bit \<open>q\<close>.\<close>

definition partner :: "nat \<Rightarrow> nat \<Rightarrow> nat" where
  "partner q k = (if bit k q then k - 2 ^ q else k + 2 ^ q)"

text \<open>
  Modelled from the spec: the index-based application of a 2x2 matrix
  \<open>[[u00, u01], [u10, u11]]\<close> to qubit \<open>q\<close>: every pair of basis states that differ
  only in bit \<open>q\<close> is transformed by the matrix.
\<close>

definition apply_matrix ::
  "complex \<times> complex \<times> complex \<times> complex \<Rightarrow> nat \<Rightarrow> statevector \<Rightarrow> statevector" where
  "apply_matrix U q psi =
     (case U of (u00, u01, u10, u11) \<Rightarrow>
        map (\<lambda>k. if bit k q then u10 * psi ! partner q k + u11 * psi ! k
                 else u00 * psi ! k + u01 * psi ! partner q k)
            [0..<length psi])"

text \<open>
  Modelled from the spec: the gate matrices,
  H = (1/sqrt 2) [[1, 1], [1, -1]], X = [[0, 1], [1, 0]], Z = [[1, 0], [0, -1]].
\<close>

definition H_matrix :: "complex \<times> complex \<times> complex \<times> complex" where
  "H_matrix = (complex_of_real (1 / sqrt 2), complex_of_real (1 / sqrt 2),
               complex_of_real (1 / sqrt 2), - complex_of_real (1 / sqrt 2))"

definition X_matrix :: "complex \<times> complex \<times> complex \<times> complex" where
  "X_matrix = (0, 1, 1, 0)"

definition Z_matrix :: "complex \<times> complex \<times> complex \<times> complex" where
  "Z_matrix = (1, 0, 0, - 1)"

text \<open>
  Modelled from the spec: CNOT(control, target) exchanges, for every basis state whose
  control bit is 1, the amplitudes of the two basis states that differ only in the target
  bit, and leaves the other amplitudes untouched.
\<close>

definition apply_cnot :: "nat \<Rightarrow> nat \<Rightarrow> statevector \<Rightarrow> statevector" where
  "apply_cnot c t psi =
     map (\<lambda>k. if bit k c then psi ! partner t k else psi ! k) [0..<length psi]"

text \<open>
  Modelled from the spec: \<open>apply(state, gate)\<close> (section 4.1). A measurement is not a
  gate; the measurement engine below handles it.
\<close>

fun apply_gate :: "gate_op \<Rightarrow> statevector \<Rightarrow> statevector" where
  "apply_gate (H q) psi = apply_matrix H_matrix q psi"
| "apply_gate (X q) psi = apply_matrix X_matrix q psi"
| "apply_gate (Z q) psi = apply_matrix Z_matrix q psi"
| "apply_gate (CNOT c t) psi = apply_cnot c t psi"
| "apply_gate (Measure qs cs) psi = psi"

text \<open>
  Modelled from the spec: the probability of a basis state is the squared magnitude of its
  amplitude.
\<close>

definition probabilities :: "statevector \<Rightarrow> real list" where
  "probabilities psi = map (\<lambda>a. (cmod a)\<^sup>2) psi"

subsection \<open>Measurement engine\<close>

text \<open>
  Modelled from the spec: one shot draws a basis-state index with probability equal to the
  squared magnitude of its amplitude (section 4.4). The draw is made from a uniform
  variate \<open>u\<close> in \<open>[0, 1)\<close>: the index is the first one at which the running sum of the
  probabilities exceeds \<open>u\<close>. The variates come from the simulator's random generator and
  are a parameter of the model.
\<close>

fun sample_index :: "real list \<Rightarrow> real \<Rightarrow> nat" where
  "sample_index [] u = 0"
| "sample_index (p # ps) u = (if u < p then 0 else Suc (sample_index ps (u - p)))"

text \<open>
  Modelled from the spec: a measurement writes, for each of its pairs, the value that the
  qubit has in the drawn basis state into the classical slot. The measurement is
  projective: afterwards only the basis states that agree with the drawn one on the
  measured qubits keep their amplitudes, renormalised. The recorded bitstring shows the
  classical slots with the highest slot first, as the library prints it.
\<close>

definition read_out :: "nat list \<Rightarrow> nat list \<Rightarrow> nat \<Rightarrow> bool list \<Rightarrow> bool list" where
  "read_out qs cs k creg =
     fold (\<lambda>(q, c) reg. reg[c := bit k q])
       (case measure_pairs qs cs of Some ps \<Rightarrow> ps | None \<Rightarrow> []) creg"

definition agrees :: "nat list \<Rightarrow> nat \<Rightarrow> nat \<Rightarrow> bool" where
  "agrees qs k j \<longleftrightarrow> (\<forall>q \<in> set qs. bit j q = bit k q)"

definition collapse :: "nat list \<Rightarrow> nat \<Rightarrow> statevector \<Rightarrow> statevector" where
  "collapse qs k psi =
     (let p = sum_list (map (\<lambda>j. if agrees qs k j then (cmod (psi ! j))\<^sup>2 else 0)
                          [0..<length psi])
      in map (\<lambda>j. if agrees qs k j then psi ! j / complex_of_real (sqrt p) else 0)
             [0..<length psi])"

definition bitstring :: "bool list \<Rightarrow> string" where
  "bitstring creg = rev (map (\<lambda>b. if b then CHR ''1'' else CHR ''0'') creg)"

type_synonym counts = "string \<rightharpoonup> nat"

text \<open>
  Modelled from the spec: the counts table maps a bitstring to its number of occurrences
  (section 3); only bitstrings that occurred are keys. \<open>count_outcome\<close> records one more
  occurrence, \<open>tally\<close> counts a list of outcomes, \<open>counts_total\<close> is the sum of the
  table's entries.
\<close>

definition count_outcome :: "string \<Rightarrow> counts \<Rightarrow> counts" where
  "count_outcome b m = m(b \<mapsto> (case m b of None \<Rightarrow> 1 | Some n \<Rightarrow> Suc n))"

fun tally :: "string list \<Rightarrow> counts" where
  "tally [] = Map.empty"
| "tally (b # bs) = count_outcome b (tally bs)"


text \<open>
  Modelled from the spec: one operation of one shot (section 4.4). The state of a shot is
  the amplitude vector, the classical register and the number of variates drawn so far. A
  gate transforms the vector; a measurement draws a basis-state index, writes the
  classical slots and collapses the vector.
\<close>

definition run_op ::
  "(nat \<Rightarrow> real) \<Rightarrow> gate_op \<Rightarrow> statevector \<times> bool list \<times> nat \<Rightarrow> statevector \<times> bool list \<times> nat"
  where
  "run_op rng g st =
     (case st of (psi, creg, n) \<Rightarrow>
        (case g of
           Measure qs cs \<Rightarrow>
             (let k = sample_index (probabilities psi) (rng n)
              in (collapse qs k psi, read_out qs cs k creg, Suc n))
         | _ \<Rightarrow> (apply_gate g psi, creg, n)))"

text \<open>
  Modelled from the spec: shot number \<open>i\<close> replays every operation in circuit order from
  the all-zero basis state and a classical register of zeros, and records the bitstring
  of the register. Each shot draws one variate per measurement of the circuit, so shot
  \<open>i\<close> starts at variate \<open>i\<close> times the number of measurements.
\<close>

definition run_shot :: "circuit \<Rightarrow> (nat \<Rightarrow> real) \<Rightarrow> nat \<Rightarrow> string" where
  "run_shot c rng i =
     (case fold (run_op rng) (ops c)
             (initial_state (qubit_count c), replicate (clbit_count c) False,
              i * length (filter is_measurement (ops c)))
      of (psi, creg, n) \<Rightarrow> bitstring creg)"

text \<open>
  Modelled from the spec: the simulator's \<^verbatim>\<open>run(circuit, shots) -> counts\<close> (sections 4.4
  and 6): it runs \<open>shots\<close> shots and tallies their bitstrings. A run of zero shots is
  refused, and a circuit without any measurement has no counts. A circuit record that
  holds an operation the builder refuses cannot be made through the methods above; the
  run refuses it as well.
\<close>

definition sim_run :: "circuit \<Rightarrow> nat \<Rightarrow> (nat \<Rightarrow> real) \<Rightarrow> error + counts" where
  "sim_run c shots rng =
     (if \<exists>g \<in> set (ops c). check_op c g \<noteq> None then Inl IndexOutOfRange
      else if shots = 0 then Inl InvalidShots
      else if \<not> (\<exists>g \<in> set (ops c). is_measurement g) then Inl NoCounts
      else Inr (tally (map (run_shot c rng) [0..<shots])))"

text \<open>
  Modelled from the spec: the shot count of a run that names none is 1024 (section 4.4);
  the output recorded in the notebook, \<^verbatim>\<open>{'11': 1024}\<close>, agrees.
\<close>

definition default_shots :: nat where
  "default_shots = 1024"

subsection \<open>The decoder and the full program\<close>

text \<open>
  \<^verbatim>\<open>
  def decode_message(qc):
      qc.cx(1, 0)
      qc.h(1)
      qc.measure([0, 1], [0, 1])
      sim = QasmSimulator()
      job = sim.run(qc)
      result = job.result()
      return result.get_counts()
  \<close>
  The run names no shot count, so the default applies.
\<close>

definition decode_message :: "ref \<Rightarrow> (nat \<Rightarrow> real) \<Rightarrow> counts py" where
  "decode_message qc rng =
     seq (qc_cx 1 0 qc)
    (seq (qc_h 1 qc)
    (seq (qc_measure [0, 1] [0, 1] qc)
         (\<lambda>h. (h, if length h \<le> qc then Inl InvalidReference
                   else sim_run (h ! qc) default_shots rng))))"

text \<open>
  \<^verbatim>\<open>
  qc = QuantumCircuit(2, 2)
  qc.h(1)
  qc.cx(1, 0)
  message = '11'
  encode_message(qc, message)
  result = decode_message(qc)
  \<close>
  with the message as a parameter.
\<close>

definition full_program :: "string \<Rightarrow> (nat \<Rightarrow> real) \<Rightarrow> counts py" where
  "full_program message rng =
     bind (QuantumCircuit 2 2) (\<lambda>qc.
       seq (qc_h 1 qc)
      (seq (qc_cx 1 0 qc)
      (seq (encode_message qc message)
           (decode_message qc rng))))"

subsection \<open>Notions used to state the properties\<close>

text \<open>
  The store in which the circuit behind \<open>qc\<close> has the operations \<open>gs\<close> appended and
  every other object is as in \<open>h\<close>.
\<close>

definition appended :: "ref \<Rightarrow> gate_op list \<Rightarrow> heap \<Rightarrow> heap" where
  "appended qc gs h = h[qc := (h ! qc)\<lparr>ops := ops (h ! qc) @ gs\<rparr>]"

definition empty_circuit :: "nat \<Rightarrow> nat \<Rightarrow> circuit" where
  "empty_circuit n m = \<lparr>qubit_count = n, clbit_count = m, ops = []\<rparr>"

text \<open>
  The operations that the two conditionals of \<^verbatim>\<open>encode_message\<close> append for a message of
  two characters.
\<close>

definition encoding :: "string \<Rightarrow> gate_op list" where
  "encoding message =
     (if message ! 0 = CHR ''1'' then [Z 1] else []) @
     (if message ! 1 = CHR ''1'' then [X 1] else [])"

section \<open>Auxiliary facts\<close>

subsection \<open>The store and the circuit builder\<close>

lemmas stmt_defs = bind_def seq_def return_def raise_def

lemma appended_Nil [simp]: "appended qc [] h = h"
  by (simp add: appended_def)

lemma appended_appended [simp]:
  "appended qc gs2 (appended qc gs1 h) = appended qc (gs1 @ gs2) h"
  by (cases "qc < length h") (simp_all add: appended_def list_update_beyond)

lemma length_appended [simp]: "length (appended qc gs h) = length h"
  by (simp add: appended_def)

lemma fields_appended [simp]:
  "qc < length h \<Longrightarrow> qubit_count (appended qc gs h ! qc) = qubit_count (h ! qc)"
  "qc < length h \<Longrightarrow> clbit_count (appended qc gs h ! qc) = clbit_count (h ! qc)"
  "qc < length h \<Longrightarrow> ops (appended qc gs h ! qc) = ops (h ! qc) @ gs"
  by (simp_all add: appended_def)

lemma appended_other: "r \<noteq> qc \<Longrightarrow> appended qc gs h ! r = h ! r"
  by (simp add: appended_def)

lemma appended_last: "appended (length h) gs (h @ [c]) = h @ [c\<lparr>ops := ops c @ gs\<rparr>]"
  by (simp add: appended_def)

lemma check_op_gate:
  "q < qubit_count c \<Longrightarrow> check_op c (H q) = None"
  "q < qubit_count c \<Longrightarrow> check_op c (X q) = None"
  "q < qubit_count c \<Longrightarrow> check_op c (Z q) = None"
  "a < qubit_count c \<Longrightarrow> b < qubit_count c \<Longrightarrow> a \<noteq> b \<Longrightarrow> check_op c (CNOT a b) = None"
  by (simp_all add: check_op_def)

lemma check_op_measure01:
  "2 \<le> qubit_count c \<Longrightarrow> 2 \<le> clbit_count c \<Longrightarrow>
   check_op c (Measure [0, Suc 0] [0, Suc 0]) = None"
  by (simp add: check_op_def measure_pairs_def)

lemma check_op_appended [simp]:
  "qc < length h \<Longrightarrow> check_op (appended qc gs h ! qc) g = check_op (h ! qc) g"
  by (simp add: check_op_def)

lemma append_op_ok:
  "qc < length h \<Longrightarrow> check_op (h ! qc) g = None \<Longrightarrow>
   append_op g qc h = (appended qc [g] h, Inr ())"
  by (simp add: append_op_def appended_def)

lemma append_op_result:
  "append_op g qc h = (h', res) \<Longrightarrow>
     (h' = h \<and> (\<exists>e. res = Inl e)) \<or> (qc < length h \<and> h' = appended qc [g] h \<and> res = Inr ())"
  by (auto simp: append_op_def appended_def split: if_splits option.splits)

subsection \<open>The encoder and the decoder on the store\<close>

lemma encode_message_ok:
  assumes "qc < length h" "2 \<le> qubit_count (h ! qc)" "length message = 2"
  shows "encode_message qc message h = (appended qc (encoding message) h, Inr ())"
  using assms
  by (simp add: encode_message_def encoding_def stmt_defs qc_z_def qc_x_def append_op_ok
      check_op_gate)

lemma encode_message_success:
  assumes "encode_message qc message h = (h', Inr v)"
  shows "length message = 2 \<and> h' = appended qc (encoding message) h"
proof (cases "length message = 2")
  case False
  with assms show ?thesis by (simp add: encode_message_def raise_def)
next
  case True
  obtain h1 r1 where s1: "(if message ! 0 = CHR ''1'' then qc_z 1 qc else return ()) h = (h1, r1)"
    by (cases "(if message ! 0 = CHR ''1'' then qc_z 1 qc else return ()) h")
  from assms True s1 obtain u where r1: "r1 = Inr u"
    by (cases r1) (auto simp: encode_message_def stmt_defs)
  from assms True s1 r1
  have s2: "(if message ! 1 = CHR ''1'' then qc_x 1 qc else return ()) h1 = (h', Inr v)"
    by (simp add: encode_message_def stmt_defs)
  from s1 r1 have e1: "h1 = appended qc (if message ! 0 = CHR ''1'' then [Z 1] else []) h"
    by (auto simp: qc_z_def return_def split: if_splits dest!: append_op_result)
  from s2 have e2: "h' = appended qc (if message ! 1 = CHR ''1'' then [X 1] else []) h1"
    by (auto simp: qc_x_def return_def split: if_splits dest!: append_op_result)
  from e1 e2 True show ?thesis
    by (simp add: encoding_def)
qed

lemma decode_message_ok:
  assumes "qc < length h" "2 \<le> qubit_count (h ! qc)" "2 \<le> clbit_count (h ! qc)"
  shows "decode_message qc rng h =
           (appended qc [CNOT 1 0, H 1, Measure [0, 1] [0, 1]] h,
            sim_run (appended qc [CNOT 1 0, H 1, Measure [0, 1] [0, 1]] h ! qc) default_shots rng)"
  using assms
  by (simp add: decode_message_def stmt_defs qc_cx_def qc_h_def qc_measure_def append_op_ok
      check_op_gate check_op_measure01)

lemma full_program_unfold:
  assumes "length message = 2"
  shows "full_program message rng h =
           (h @ [\<lparr>qubit_count = 2, clbit_count = 2,
                  ops = [H 1, CNOT 1 0] @ encoding message @
                        [CNOT 1 0, H 1, Measure [0, 1] [0, 1]]\<rparr>],
            sim_run \<lparr>qubit_count = 2, clbit_count = 2,
                  ops = [H 1, CNOT 1 0] @ encoding message @
                        [CNOT 1 0, H 1, Measure [0, 1] [0, 1]]\<rparr>
              default_shots rng)"
proof -
  let ?h1 = "h @ [\<lparr>qubit_count = 2, clbit_count = 2, ops = [H 1, CNOT 1 0]\<rparr>]"
  have q: "length h < length ?h1" "2 \<le> qubit_count (?h1 ! length h)"
    by simp_all
  have e: "encode_message (length h) message ?h1 =
             (appended (length h) (encoding message) ?h1, Inr ())"
    by (rule encode_message_ok [OF q assms])
  let ?h2 = "appended (length h) (encoding message) ?h1"
  have q2: "length h < length ?h2" "2 \<le> qubit_count (?h2 ! length h)"
    "2 \<le> clbit_count (?h2 ! length h)"
    by (simp_all add: appended_last)
  have d: "decode_message (length h) rng ?h2 =
           (appended (length h) [CNOT 1 0, H 1, Measure [0, 1] [0, 1]] ?h2,
            sim_run (appended (length h) [CNOT 1 0, H 1, Measure [0, 1] [0, 1]] ?h2 ! length h)
              default_shots rng)"
    by (rule decode_message_ok [OF q2])
  have "full_program message rng h =
          seq (encode_message (length h) message) (decode_message (length h) rng) ?h1"
    by (simp add: full_program_def QuantumCircuit_def stmt_defs qc_h_def qc_cx_def append_op_ok
        check_op_gate appended_last)
  also have "\<dots> = decode_message (length h) rng ?h2"
    using e by (simp add: bind_def seq_def)
  finally show ?thesis
    unfolding d by (simp add: appended_last)
qed

subsection \<open>Gates on a vector of four amplitudes\<close>

lemma upt_length4: "[0..<length [a, b, c, d]] = [0, 1, 2, 3]"
  by (simp add: upt_rec)

lemma length4E:
  assumes "length (psi :: 'a list) = 4"
  obtains a b c d where "psi = [a, b, c, d]"
proof -
  from assms obtain a p1 where "psi = a # p1" "length p1 = 3" by (cases psi) auto
  moreover then obtain b p2 where "p1 = b # p2" "length p2 = 2" by (cases p1) auto
  moreover then obtain c p3 where "p2 = c # p3" "length p3 = 1" by (cases p2) auto
  moreover then obtain d where "p3 = [d]" by (cases p3) auto
  ultimately show thesis using that by simp
qed

lemma less2: "(q::nat) < 2 \<longleftrightarrow> q = 0 \<or> q = Suc 0"
  by auto

lemma apply_matrix_q0:
  "apply_matrix (u00, u01, u10, u11) 0 [a, b, c, d] =
     [u00 * a + u01 * b, u10 * a + u11 * b, u00 * c + u01 * d, u10 * c + u11 * d]"
  unfolding apply_matrix_def upt_length4 by (simp add: partner_def bit_Suc_0_iff)

lemma apply_matrix_q1:
  "apply_matrix (u00, u01, u10, u11) (Suc 0) [a, b, c, d] =
     [u00 * a + u01 * c, u00 * b + u01 * d, u10 * a + u11 * c, u10 * b + u11 * d]"
  unfolding apply_matrix_def upt_length4 by (simp add: partner_def bit_Suc_0_iff)

lemma apply_cnot_10: "apply_cnot (Suc 0) 0 [a, b, c, d] = [a, b, d, c]"
  unfolding apply_cnot_def upt_length4 by (simp add: partner_def bit_Suc_0_iff)

lemma apply_cnot_01: "apply_cnot 0 (Suc 0) [a, b, c, d] = [a, d, c, b]"
  unfolding apply_cnot_def upt_length4 by (simp add: partner_def bit_Suc_0_iff)

lemmas gate4 = apply_matrix_q0 apply_matrix_q1 apply_cnot_10 apply_cnot_01 H_matrix_def
  X_matrix_def Z_matrix_def

lemma sqrt2_sq: "complex_of_real (sqrt 2) * complex_of_real (sqrt 2) = 2"
  by (simp add: of_real_mult [symmetric] del: of_real_mult)

lemma cnot_twice4:
  assumes "c < 2" "t < 2" "c \<noteq> t"
  shows "apply_gate (CNOT c t) (apply_gate (CNOT c t) [a, b, c', d]) = [a, b, c', d]"
  using assms by (auto simp: less2 gate4)

lemma initial_state_2: "initial_state 2 = [1, 0, 0, 0]"
  by (simp add: initial_state_def numeral_3_eq_3)

subsection \<open>Counting outcomes\<close>

lemma count_outcome_fresh: "count_outcome b Map.empty = [b \<mapsto> 1]"
  by (simp add: count_outcome_def)

lemma count_outcome_again: "count_outcome b [b \<mapsto> n] = [b \<mapsto> Suc n]"
  by (simp add: count_outcome_def)


lemma tally_replicate: "tally (replicate (Suc n) b) = [b \<mapsto> Suc n]"
proof (induction n)
  case 0
  show ?case by (simp add: count_outcome_fresh)
next
  case (Suc n)
  have "tally (replicate (Suc (Suc n)) b) = count_outcome b (tally (replicate (Suc n) b))"
    by simp
  also have "\<dots> = [b \<mapsto> Suc (Suc n)]"
    by (simp only: Suc.IH count_outcome_again)
  finally show ?case .
qed

lemma tally_constant: "0 < n \<Longrightarrow> tally (map (\<lambda>i. b) [0..<n]) = [b \<mapsto> n]"
  using tally_replicate [of "n - 1" b] by (simp add: map_replicate_const)




subsection \<open>The simulator's run\<close>

lemma run_gates:
  "\<forall>g \<in> set gs. \<not> is_measurement g \<Longrightarrow>
   fold (run_op rng) gs (psi, creg, n) = (fold apply_gate gs psi, creg, n)"
proof (induction gs arbitrary: psi)
  case Nil
  show ?case by simp
next
  case (Cons g gs)
  from Cons.prems have "run_op rng g (psi, creg, n) = (apply_gate g psi, creg, n)"
    by (cases g) (simp_all add: run_op_def)
  with Cons show ?case by simp
qed

lemma filter_no_measurement:
  "\<forall>g \<in> set gs. \<not> is_measurement g \<Longrightarrow> filter is_measurement gs = []"
  by (induction gs) simp_all

lemma sim_run_counts:
  assumes "\<forall>g \<in> set (ops c). check_op c g = None"
    and "\<exists>g \<in> set (ops c). is_measurement g"
    and "0 < shots"
  shows "sim_run c shots rng = Inr (tally (map (run_shot c rng) [0..<shots]))"
  using assms by (auto simp: sim_run_def)

lemma sim_run_gates:
  assumes "ops c = gs @ [Measure qs cs]"
    and "\<forall>g \<in> set gs. check_op c g = None \<and> \<not> is_measurement g"
    and "check_op c (Measure qs cs) = None"
    and "0 < shots"
  shows "sim_run c shots rng =
           Inr (tally (map (\<lambda>i. bitstring (read_out qs cs
                   (sample_index (probabilities (fold apply_gate gs (initial_state (qubit_count c))))
                      (rng i))
                   (replicate (clbit_count c) False))) [0..<shots]))"
proof -
  from assms(2) have g: "\<forall>g \<in> set gs. \<not> is_measurement g" by simp
  have "run_shot c rng i = bitstring (read_out qs cs
          (sample_index (probabilities (fold apply_gate gs (initial_state (qubit_count c)))) (rng i))
          (replicate (clbit_count c) False))" for i
    by (simp add: run_shot_def assms(1) run_gates [OF g] filter_no_measurement [OF g] run_op_def Let_def)
  then have "run_shot c rng = (\<lambda>i. bitstring (read_out qs cs
          (sample_index (probabilities (fold apply_gate gs (initial_state (qubit_count c)))) (rng i))
          (replicate (clbit_count c) False)))"
    by (rule ext)
  moreover have "sim_run c shots rng = Inr (tally (map (run_shot c rng) [0..<shots]))"
    using assms by (intro sim_run_counts) auto
  ultimately show ?thesis by (simp only:)
qed

section \<open>Properties of the encoder\<close>

text \<open>
  Claim C3. On a circuit with at least two qubits, \<^verbatim>\<open>encode_message\<close> appends gates keyed
  by the message: "00" appends nothing, "01" appends X on Alice's qubit (qubit 1), "10"
  appends Z on it, and "11" appends Z and then X on it, in that order.
\<close>

theorem encode_message_table:
  assumes "qc < length h" and "2 \<le> qubit_count (h ! qc)"
  shows "alice_qubit = 1 \<and>
         encode_message qc ''00'' h = (h, Inr ()) \<and>
         encode_message qc ''01'' h = (appended qc [X alice_qubit] h, Inr ()) \<and>
         encode_message qc ''10'' h = (appended qc [Z alice_qubit] h, Inr ()) \<and>
         encode_message qc ''11'' h = (appended qc [Z alice_qubit, X alice_qubit] h, Inr ())"
  using assms by (simp add: encode_message_ok encoding_def alice_qubit_def)

theorem encode_message_table_witness:
  "encode_message 0 ''00'' [empty_circuit 2 2] = ([empty_circuit 2 2], Inr ()) \<and>
   ops (fst (encode_message 0 ''01'' [empty_circuit 2 2]) ! 0) = [X 1] \<and>
   ops (fst (encode_message 0 ''10'' [empty_circuit 2 2]) ! 0) = [Z 1] \<and>
   ops (fst (encode_message 0 ''11'' [empty_circuit 2 2]) ! 0) = [Z 1, X 1]"
  using encode_message_table [of 0 "[empty_circuit 2 2]"]
  by (simp add: empty_circuit_def appended_def alice_qubit_def)

text \<open>
  Claim C5. For every message whose length is not 2, \<^verbatim>\<open>encode_message\<close> raises the
  length exception and leaves the store, hence the circuit and its gate count, as it was.
\<close>

theorem encode_rejects_length:
  assumes "length message \<noteq> 2"
  shows "encode_message qc message h = (h, Inl InvalidMessageLength)"
  using assms by (simp add: encode_message_def raise_def)

theorem encode_rejects_length_witness:
  "length ''101'' \<noteq> 2 \<and>
   encode_message 0 ''101'' [empty_circuit 2 2] = ([empty_circuit 2 2], Inl InvalidMessageLength)"
  using encode_rejects_length [of "''101''" 0 "[empty_circuit 2 2]"] by simp

text \<open>
  Claim C6 says that a message of two characters with a character outside '0' and '1' is
  refused. The encoder has no such check: the message "2x" is accepted and appends
  nothing.
\<close>

theorem encode_symbol_counterexample:
  "encode_message 0 ''2x'' [empty_circuit 2 2] = ([empty_circuit 2 2], Inr ())"
  by (simp add: encode_message_def stmt_defs)

text \<open>
  Claim C6, amended. For every message of two characters that contains a character
  outside '0' and '1', the encoder on a circuit with at least two qubits does not fail:
  it returns \<^verbatim>\<open>None\<close> after appending Z on qubit 1 exactly when the first character is '1'
  and then X on qubit 1 exactly when the second character is '1'. Every character other
  than '1' is treated as '0'; only the length is validated.
\<close>

theorem encode_ignores_symbols:
  assumes "qc < length h" and "2 \<le> qubit_count (h ! qc)" and "length message = 2"
    and "\<exists>ch \<in> set message. ch \<notin> {CHR ''0'', CHR ''1''}"
  shows "encode_message qc message h =
           (appended qc ((if message ! 0 = CHR ''1'' then [Z 1] else []) @
                         (if message ! 1 = CHR ''1'' then [X 1] else [])) h, Inr ())"
  using assms(1-3) by (simp add: encode_message_ok encoding_def)

theorem encode_ignores_symbols_witness:
  "length ''1x'' = 2 \<and> CHR ''x'' \<notin> {CHR ''0'', CHR ''1''} \<and>
   encode_message 0 ''1x'' [empty_circuit 2 2] = (appended 0 [Z 1] [empty_circuit 2 2], Inr ())"
  using encode_ignores_symbols [of 0 "[empty_circuit 2 2]" "''1x''"]
  by (simp add: empty_circuit_def)

text \<open>
  Claim C10. A successful call of \<^verbatim>\<open>encode_message\<close> returns \<^verbatim>\<open>None\<close> (the unit value), and
  the store after it is the store before it with the encoding gates appended to the
  circuit object behind the caller's reference: no object is created and every other
  object is untouched.
\<close>

theorem encode_mutates_in_place:
  assumes "encode_message qc message h = (h', Inr v)"
  shows "v = () \<and> h' = appended qc (encoding message) h \<and> length h' = length h \<and>
         (\<forall>r. r \<noteq> qc \<longrightarrow> h' ! r = h ! r)"
  using encode_message_success [OF assms] by (simp add: appended_other)

theorem encode_mutates_in_place_witness:
  "encode_message 0 ''11'' [empty_circuit 2 2, empty_circuit 3 3] =
     (appended 0 [Z 1, X 1] [empty_circuit 2 2, empty_circuit 3 3], Inr ()) \<and>
   ops (appended 0 [Z 1, X 1] [empty_circuit 2 2, empty_circuit 3 3] ! 0) = [Z 1, X 1] \<and>
   length (appended 0 [Z 1, X 1] [empty_circuit 2 2, empty_circuit 3 3]) = 2 \<and>
   appended 0 [Z 1, X 1] [empty_circuit 2 2, empty_circuit 3 3] ! 1 = empty_circuit 3 3"
proof -
  let ?h = "[empty_circuit 2 2, empty_circuit 3 3]"
  have e: "encode_message 0 ''11'' ?h = (appended 0 (encoding ''11'') ?h, Inr ())"
    by (rule encode_message_ok) (simp_all add: empty_circuit_def)
  from encode_mutates_in_place [OF e] e show ?thesis
    by (simp add: encoding_def empty_circuit_def appended_def)
qed

section \<open>Properties of the decoder\<close>

text \<open>
  Claim C4 says that \<^verbatim>\<open>decode_message\<close> appends a CNOT with Bob's qubit as control and
  Alice's qubit as target and then a Hadamard on Bob's qubit. The encoder acts on qubit 1,
  which is therefore Alice's, and the decoder appends \<^verbatim>\<open>cx(1, 0)\<close> and \<^verbatim>\<open>h(1)\<close>: the control
  and the Hadamard are on Alice's qubit, not on Bob's.
\<close>

theorem decode_roles_counterexample:
  "ops (fst (decode_message 0 (\<lambda>i. 0) [empty_circuit 2 2]) ! 0) \<noteq>
     [CNOT bob_qubit alice_qubit, H bob_qubit, Measure [0, 1] [0, 1]]"
proof -
  have "decode_message 0 (\<lambda>i. 0) [empty_circuit 2 2] =
          (appended 0 [CNOT 1 0, H 1, Measure [0, 1] [0, 1]] [empty_circuit 2 2],
           sim_run (appended 0 [CNOT 1 0, H 1, Measure [0, 1] [0, 1]] [empty_circuit 2 2] ! 0)
             default_shots (\<lambda>i. 0))"
    by (rule decode_message_ok) (simp_all add: empty_circuit_def)
  then show ?thesis
    by (simp add: empty_circuit_def alice_qubit_def bob_qubit_def)
qed

text \<open>
  Claim C4, amended. On a circuit with at least two qubits and two classical slots,
  \<^verbatim>\<open>decode_message\<close> appends exactly, and in this order: a CNOT with qubit 1 (the qubit
  Alice encoded on) as control and qubit 0 (Bob's) as target, a Hadamard on qubit 1, and a
  measurement binding qubit 0 to classical slot 0 and qubit 1 to classical slot 1. It then
  returns the counts of a run of the resulting circuit with the default shot count.
\<close>

theorem decode_message_appends:
  assumes "qc < length h" and "2 \<le> qubit_count (h ! qc)" and "2 \<le> clbit_count (h ! qc)"
  shows "decode_message qc rng h =
           (appended qc [CNOT alice_qubit bob_qubit, H alice_qubit, Measure [0, 1] [0, 1]] h,
            sim_run
              (appended qc [CNOT alice_qubit bob_qubit, H alice_qubit, Measure [0, 1] [0, 1]] h ! qc)
              default_shots rng)"
  using decode_message_ok [OF assms] by (simp add: alice_qubit_def bob_qubit_def)

theorem decode_message_appends_witness:
  "ops (fst (decode_message 0 (\<lambda>i. 0) [empty_circuit 2 2]) ! 0) =
     [CNOT 1 0, H 1, Measure [0, 1] [0, 1]]"
  using decode_message_appends [of 0 "[empty_circuit 2 2]" "\<lambda>i. 0"]
  by (simp add: empty_circuit_def alice_qubit_def bob_qubit_def)

text \<open>
  The order the decoder uses is the one that works. After the Bell preparation and the
  encoding of "01", a CNOT with Bob's qubit as control and Alice's as target followed by
  a Hadamard on Bob's qubit would leave the basis state 2, which the measurement records
  as "10".
\<close>

lemma swapped_decoder_misreads:
  "fold apply_gate [H 1, CNOT 1 0, X 1, CNOT bob_qubit alice_qubit, H bob_qubit]
     (initial_state 2) = [0, 0, 1, 0]"
  by (simp add: alice_qubit_def bob_qubit_def initial_state_2 gate4 sqrt2_sq)

section \<open>Properties of the gates\<close>

text \<open>
  Claim C9. Applying CNOT twice with the same control and the same target (two different
  qubits of the two-qubit circuit) gives the amplitude vector back, for every vector of
  four amplitudes.
\<close>

theorem cnot_self_inverse:
  assumes "length psi = 4" and "c < 2" and "t < 2" and "c \<noteq> t"
  shows "apply_gate (CNOT c t) (apply_gate (CNOT c t) psi) = psi"
proof -
  from assms(1) obtain a b c' d where psi: "psi = [a, b, c', d]" by (rule length4E)
  from assms(2-4) show ?thesis unfolding psi by (rule cnot_twice4)
qed

theorem cnot_self_inverse_witness:
  "length [0, 0, 1, 0 :: complex] = 4 \<and> (1::nat) < 2 \<and> (0::nat) < 2 \<and> (1::nat) \<noteq> 0 \<and>
   apply_gate (CNOT 1 0) (apply_gate (CNOT 1 0) [0, 0, 1, 0]) = [0, 0, 1, 0]"
  using cnot_self_inverse [of "[0, 0, 1, 0]" 1 0] by simp

section \<open>Properties of the whole protocol\<close>

subsection \<open>The final state and the recorded outcome for each message\<close>

lemma final_00:
  "fold apply_gate ([H 1, CNOT 1 0] @ encoding ''00'' @ [CNOT 1 0, H 1]) (initial_state 2) =
     [1, 0, 0, 0]"
  by (simp add: encoding_def initial_state_2 gate4 sqrt2_sq)

lemma final_01:
  "fold apply_gate ([H 1, CNOT 1 0] @ encoding ''01'' @ [CNOT 1 0, H 1]) (initial_state 2) =
     [0, 1, 0, 0]"
  by (simp add: encoding_def initial_state_2 gate4 sqrt2_sq)

lemma final_10:
  "fold apply_gate ([H 1, CNOT 1 0] @ encoding ''10'' @ [CNOT 1 0, H 1]) (initial_state 2) =
     [0, 0, 1, 0]"
  by (simp add: encoding_def initial_state_2 gate4 sqrt2_sq)

lemma final_11:
  "fold apply_gate ([H 1, CNOT 1 0] @ encoding ''11'' @ [CNOT 1 0, H 1]) (initial_state 2) =
     [0, 0, 0, - 1]"
  by (simp add: encoding_def initial_state_2 gate4 sqrt2_sq)

lemma probabilities_basis:
  "probabilities [1, 0, 0, 0] = [1, 0, 0, 0]"
  "probabilities [0, 1, 0, 0] = [0, 1, 0, 0]"
  "probabilities [0, 0, 1, 0] = [0, 0, 1, 0]"
  "probabilities [0, 0, 0, - 1] = [0, 0, 0, 1]"
  by (simp_all add: probabilities_def)

lemma sample_basis:
  assumes "0 \<le> u" "u < 1"
  shows "sample_index [1, 0, 0, 0] u = 0"
    and "sample_index [0, 1, 0, 0] u = 1"
    and "sample_index [0, 0, 1, 0] u = 2"
    and "sample_index [0, 0, 0, 1] u = 3"
  using assms by simp_all

lemma recorded_bitstring:
  "bitstring (read_out [0, 1] [0, 1] 0 (replicate 2 False)) = ''00''"
  "bitstring (read_out [0, 1] [0, 1] 1 (replicate 2 False)) = ''01''"
  "bitstring (read_out [0, 1] [0, 1] 2 (replicate 2 False)) = ''10''"
  "bitstring (read_out [0, 1] [0, 1] 3 (replicate 2 False)) = ''11''"
proof -
  have r: "replicate 2 False = [False, False]"
    by (simp add: numeral_2_eq_2)
  show "bitstring (read_out [0, 1] [0, 1] 0 (replicate 2 False)) = ''00''"
    "bitstring (read_out [0, 1] [0, 1] 1 (replicate 2 False)) = ''01''"
    "bitstring (read_out [0, 1] [0, 1] 2 (replicate 2 False)) = ''10''"
    "bitstring (read_out [0, 1] [0, 1] 3 (replicate 2 False)) = ''11''"
    unfolding r by (simp_all add: read_out_def measure_pairs_def bitstring_def bit_Suc_0_iff)
qed

lemma outcome:
  assumes "0 \<le> u" "u < 1"
  shows "bitstring (read_out [0, 1] [0, 1] (sample_index (probabilities [1, 0, 0, 0]) u)
           (replicate 2 False)) = ''00''"
    and "bitstring (read_out [0, 1] [0, 1] (sample_index (probabilities [0, 1, 0, 0]) u)
           (replicate 2 False)) = ''01''"
    and "bitstring (read_out [0, 1] [0, 1] (sample_index (probabilities [0, 0, 1, 0]) u)
           (replicate 2 False)) = ''10''"
    and "bitstring (read_out [0, 1] [0, 1] (sample_index (probabilities [0, 0, 0, - 1]) u)
           (replicate 2 False)) = ''11''"
  by (simp_all only: probabilities_basis sample_basis [OF assms] recorded_bitstring)

lemma protocol_counts:
  assumes m: "message \<in> {''00'', ''01'', ''10'', ''11''}"
    and rng: "\<forall>i. 0 \<le> rng i \<and> rng i < 1"
    and n: "0 < shots"
  shows "sim_run \<lparr>qubit_count = 2, clbit_count = 2,
             ops = [H 1, CNOT 1 0] @ encoding message @ [CNOT 1 0, H 1, Measure [0, 1] [0, 1]]\<rparr>
           shots rng = Inr [message \<mapsto> shots]"
proof -
  let ?gs = "[H 1, CNOT 1 0] @ encoding message @ [CNOT 1 0, H 1]"
  let ?c = "\<lparr>qubit_count = 2, clbit_count = 2,
             ops = [H 1, CNOT 1 0] @ encoding message @ [CNOT 1 0, H 1, Measure [0, 1] [0, 1]]\<rparr>"
  have ops: "ops ?c = ?gs @ [Measure [0, 1] [0, 1]]" by simp
  have ok: "\<forall>g \<in> set ?gs. check_op ?c g = None \<and> \<not> is_measurement g"
    by (auto simp: encoding_def check_op_def)
  have okm: "check_op ?c (Measure [0, 1] [0, 1]) = None"
    by (simp add: check_op_def measure_pairs_def)
  have each: "bitstring (read_out [0, 1] [0, 1]
                 (sample_index (probabilities (fold apply_gate ?gs (initial_state 2))) (rng i))
                 (replicate 2 False)) = message" for i
  proof -
    from rng have u: "0 \<le> rng i" "rng i < 1" by simp_all
    from m consider "message = ''00''" | "message = ''01''" | "message = ''10''"
      | "message = ''11''"
      by auto
    then show ?thesis
    proof cases
      case 1 then show ?thesis by (simp only: final_00 outcome(1) [OF u])
    next
      case 2 then show ?thesis by (simp only: final_01 outcome(2) [OF u])
    next
      case 3 then show ?thesis by (simp only: final_10 outcome(3) [OF u])
    next
      case 4 then show ?thesis by (simp only: final_11 outcome(4) [OF u])
    qed
  qed
  have "sim_run ?c shots rng = Inr (tally (map (\<lambda>i. message) [0..<shots]))"
    unfolding sim_run_gates [OF ops ok okm n] using each by simp
  also have "\<dots> = Inr [message \<mapsto> shots]"
    using n by (simp add: tally_constant)
  finally show ?thesis .
qed

text \<open>
  Claim C1. For every message M among "00", "01", "10" and "11", the full program (a
  fresh two-qubit circuit, H on qubit 1, CNOT(1, 0), \<^verbatim>\<open>encode_message\<close> with M, then
  \<^verbatim>\<open>decode_message\<close>) returns the counts table that maps M to the shot count of the run and
  has no other key, whatever uniform variates in \<open>[0, 1)\<close> the simulator draws.
\<close>

theorem superdense_roundtrip:
  assumes "message \<in> {''00'', ''01'', ''10'', ''11''}"
    and "\<forall>i. 0 \<le> rng i \<and> rng i < 1"
  shows "snd (full_program message rng h) = Inr [message \<mapsto> default_shots]"
proof -
  from assms(1) have len: "length message = 2" by auto
  have "0 < default_shots" by (simp add: default_shots_def)
  from protocol_counts [OF assms this] show ?thesis
    by (simp add: full_program_unfold [OF len])
qed

theorem superdense_roundtrip_witness:
  "(0::real) \<le> 1 / 2 \<and> (1 / 2 :: real) < 1 \<and>
   snd (full_program ''10'' (\<lambda>i. 1 / 2) []) = Inr [''10'' \<mapsto> 1024]"
  using superdense_roundtrip [of "''10''" "\<lambda>i. 1 / 2" "[]"]
  by (simp add: default_shots_def)

subsection \<open>The counts of a run\<close>




subsection \<open>A shot on a circuit that was already measured\<close>













end
